theory Spec2Isabelle
  imports Main "HOL-Library.Word" "HOL-Library.Sublist"
begin

section \<open>The Blizzard session of \<^verbatim>\<open>src/lib/blizzard/session.js\<close>\<close>

subsection \<open>Values\<close>

text \<open>
  Bytes on the wire are 8-bit words. Identifiers are JavaScript numbers that the source
  documents as unsigned integers ("Blizzard IDs are 32-bit unsigned integers. Numbers
  higher than MAX_ID can not be represented, so rollover to 0"): the ids the parser reads
  and the values the session itself writes to its sequence counter are natural numbers
  here, not bounded, so that the setter's comparison with \<open>MAX_ID\<close> is visible. What a
  host may assign to the counter is any number: the setter on integers of either sign is
  \<open>setter\<close> below. Host functions (request callbacks, exposed methods) are opaque handles;
  calling one is recorded in the session's trace.
\<close>

type_synonym byte = "8 word"
type_synonym fn = nat

text \<open>
  The JavaScript values the session handles: what \<^verbatim>\<open>JSON.parse\<close> returns (numbers
  restricted to integers), \<^verbatim>\<open>undefined\<close> and Buffers. An object is the list of its own
  properties, each name once. A JavaScript string is a \<open>string\<close>.
\<close>

datatype jsval =
    JUndefined
  | JNull
  | JBool bool
  | JNum int
  | JStr string
  | JArr "jsval list"
  | JObj "(string \<times> jsval) list"
  | JBuffer "byte list"

text \<open>JavaScript's conversion to boolean, as used by \<^verbatim>\<open>if (v)\<close> and \<^verbatim>\<open>!v\<close>.\<close>

fun truthy :: "jsval \<Rightarrow> bool" where
  "truthy JUndefined = False"
| "truthy JNull = False"
| "truthy (JBool b) = b"
| "truthy (JNum n) = (n \<noteq> 0)"
| "truthy (JStr s) = (s \<noteq> [])"
| "truthy (JArr xs) = True"
| "truthy (JObj kvs) = True"
| "truthy (JBuffer bs) = True"

text \<open>
  Reading a property. On \<^verbatim>\<open>null\<close> and \<^verbatim>\<open>undefined\<close> the read throws a TypeError
  (\<open>readable\<close> is false); on any other value it yields the own property, the
  \<^verbatim>\<open>length\<close> of an array, a string or a Buffer, and \<^verbatim>\<open>undefined\<close> otherwise. The session
  reads only the names \<^verbatim>\<open>length\<close>, \<^verbatim>\<open>method\<close>, \<^verbatim>\<open>params\<close>, \<^verbatim>\<open>error\<close> and \<^verbatim>\<open>result\<close>, none of
  which is inherited from a prototype.
\<close>

fun readable :: "jsval \<Rightarrow> bool" where
  "readable JUndefined = False"
| "readable JNull = False"
| "readable v = True"

fun own :: "(string \<times> jsval) list \<Rightarrow> string \<Rightarrow> jsval" where
  "own [] k = JUndefined"
| "own ((k', v) # kvs) k = (if k' = k then v else own kvs k)"

fun read_prop :: "jsval \<Rightarrow> string \<Rightarrow> jsval" where
  "read_prop (JObj kvs) k = own kvs k"
| "read_prop (JArr xs) k = (if k = ''length'' then JNum (int (length xs)) else JUndefined)"
| "read_prop (JStr s) k = (if k = ''length'' then JNum (int (length s)) else JUndefined)"
| "read_prop (JBuffer bs) k = (if k = ''length'' then JNum (int (length bs)) else JUndefined)"
| "read_prop v k = JUndefined"

text \<open>
  The third argument of a \<^verbatim>\<open>fail\<close> event: a string literal of the source, the string
  \<^verbatim>\<open>"Method " + message.method + " not found."\<close>, the object
  \<^verbatim>\<open>new Error("Unable to parse JSON: " + JSON.stringify(jsonString))\<close>, or the error value a
  method handler passed to \<^verbatim>\<open>onComplete\<close>.
\<close>

datatype reason =
    Text string
  | MethodNotFound jsval
  | UnableToParse string
  | Thrown jsval

text \<open>
  What \<^verbatim>\<open>xferObject\<close> is given to serialise: a value, or the object
  \<^verbatim>\<open>{error: {code: code, message: error}}\<close> that \<^verbatim>\<open>onFailure\<close> builds.
\<close>

datatype json = Plain jsval | ErrorReply int reason

text \<open>
  What a call may throw. \<open>Uncaught\<close> is the throw of the emitter when an \<^verbatim>\<open>error\<close> event
  has no listener: the event's argument when that is an Error object, a new Error
  otherwise.
\<close>

datatype js_error =
    AssertionError string
  | TypeError string
  | Error string
  | Uncaught reason

subsection \<open>Constants\<close>

definition MAGIC :: nat where "MAGIC = 89"

definition TYPE_HANDSHAKE :: nat where "TYPE_HANDSHAKE = 0"
definition TYPE_JSON :: nat where "TYPE_JSON = 1"
definition TYPE_BUFFER_RESPONSE :: nat where "TYPE_BUFFER_RESPONSE = 3"

definition MAX_ID :: nat where "MAX_ID = 2 ^ 32 - 1"

definition ERROR_USER :: int where "ERROR_USER = - 32000"
definition ERROR_PARSE :: int where "ERROR_PARSE = - 32700"
definition ERROR_INVALID :: int where "ERROR_INVALID = - 32600"
definition ERROR_METHOD :: int where "ERROR_METHOD = - 32601"
definition ERROR_INTERNAL :: int where "ERROR_INTERNAL = - 32603"

subsection \<open>Session state and effects\<close>

text \<open>
  The events the session emits on itself, and what it does to the outside: a packet
  written to the socket by \<^verbatim>\<open>xferRaw\<close> or \<^verbatim>\<open>xferRawZeroLength\<close> (type, id and body: either
  the UTF-8 text of \<^verbatim>\<open>JSON.stringify\<close> of a value, or raw bytes), a request callback called
  with \<^verbatim>\<open>(error, result)\<close> (the table key it was stored under is kept beside it), and an
  exposed method called with \<^verbatim>\<open>(params, onComplete)\<close>, where \<^verbatim>\<open>onComplete\<close> is the closure
  over the message's id. Of the socket the session keeps whether it is writable; of the
  host's listeners, whether one receives the \<^verbatim>\<open>error\<close> event (the constructor registers
  none, unless the debug listener of lines 41-49 is on).
\<close>

datatype event =
    Fail nat int reason
  | Message nat jsval
  | ErrorEvent reason
  | Ready
  | IncomingJSON nat string
  | BufferData nat "byte list"
  | BufferComplete nat

datatype body = Stringified json | Octets "byte list"

datatype effect =
    Emit event
  | SocketWrite nat nat body
  | RequestCallback nat fn jsval jsval
  | MethodCall fn jsval nat

record session =
  instigator :: bool
  sequence :: nat
  methods :: "jsval \<Rightarrow> fn option"
  requestCallbacks :: "nat \<rightharpoonup> fn"
  streams :: "nat \<rightharpoonup> byte list list"
  writable :: bool
  errorListener :: bool
  trace :: "effect list"

text \<open>
  A call either returns, or throws with the state the session had reached: an exception
  does not undo the writes made before it.
\<close>

datatype outcome = Done session | Threw js_error session

fun state_of :: "outcome \<Rightarrow> session" where
  "state_of (Done s) = s"
| "state_of (Threw e s) = s"

fun and_then :: "outcome \<Rightarrow> (session \<Rightarrow> outcome) \<Rightarrow> outcome" where
  "and_then (Done s) f = f s"
| "and_then (Threw e s) f = Threw e s"

definition record_effect :: "effect \<Rightarrow> session \<Rightarrow> session" where
  "record_effect x s = s\<lparr>trace := trace s @ [x]\<rparr>"

subsection \<open>The sequence counter\<close>

text \<open>
  The setter of the \<^verbatim>\<open>sequence\<close> property (lines 26-34): the value it stores in the
  closure variable for the number it is given. It compares with \<^verbatim>\<open>MAX_ID\<close> only, so a
  number below 0 is stored as it is.
\<close>

definition setter :: "int \<Rightarrow> int" where
  "setter newSequence = (if newSequence > int MAX_ID then 0 else newSequence)"

text \<open>The same setter on the session, for the natural numbers the session writes.\<close>

definition set_sequence :: "nat \<Rightarrow> session \<Rightarrow> session" where
  "set_sequence newSequence s =
     s\<lparr>sequence := (if newSequence > MAX_ID then 0 else newSequence)\<rparr>"

text \<open>\<^verbatim>\<open>nextSequence\<close> (lines 309-316): the value returned is read back through the getter.\<close>

definition nextSequence :: "session \<Rightarrow> nat \<times> session" where
  "nextSequence s =
     (let s' = (if instigator s then set_sequence (sequence s + 2) s
                else set_sequence (sequence s + 1) s)
      in (sequence s', s'))"

text \<open>
  \<^verbatim>\<open>updateSequence\<close> (lines 318-329), on the id the parser has read with \<^verbatim>\<open>word32be\<close>
  (a number, so the \<^verbatim>\<open>isNaN\<close> test is false).
\<close>

definition updateSequence :: "nat \<Rightarrow> session \<Rightarrow> session" where
  "updateSequence i s =
     (if i = 0 then s
      else if sequence s < i then set_sequence (i + 1) s
      else s)"

text \<open>The first \<open>n\<close> identifiers that successive calls of \<^verbatim>\<open>nextSequence\<close> return.\<close>

fun next_ids :: "nat \<Rightarrow> session \<Rightarrow> nat list" where
  "next_ids 0 s = []"
| "next_ids (Suc n) s = fst (nextSequence s) # next_ids n (snd (nextSequence s))"

text \<open>The state the constructor sets up (lines 10-19), before the handshake is sent.\<close>

definition blank :: "(jsval \<Rightarrow> fn option) \<Rightarrow> bool \<Rightarrow> bool \<Rightarrow> session" where
  "blank ms inst w =
     \<lparr>instigator = inst, sequence = 0, methods = ms, requestCallbacks = Map.empty,
      streams = Map.empty, writable = w, errorListener = False, trace = []\<rparr>"

text \<open>
  The writes of the sequence field, on the closure variable itself, which a host's
  assignment can make any integer: through \<^verbatim>\<open>nextSequence\<close> (lines 310-314, for an
  instigator or not), through \<^verbatim>\<open>updateSequence\<close> on an id the parser has read (lines
  319-328), or by a direct assignment \<^verbatim>\<open>session.sequence = v\<close>. Each write goes through the
  setter.
\<close>

datatype sequence_write = Next | Update nat | Assign int

fun write_sequence :: "bool \<Rightarrow> sequence_write \<Rightarrow> int \<Rightarrow> int" where
  "write_sequence inst Next c = (if inst then setter (c + 2) else setter (c + 1))"
| "write_sequence inst (Update i) c =
     (if i = 0 then c
      else if c < int i then setter (int i + 1)
      else c)"
| "write_sequence inst (Assign v) c = setter v"

text \<open>A write whose value, when it is a direct assignment, is not below 0.\<close>

fun unsigned_write :: "sequence_write \<Rightarrow> bool" where
  "unsigned_write (Assign v) = (0 \<le> v)"
| "unsigned_write w = True"

subsection \<open>Writing packets\<close>

text \<open>
  \<^verbatim>\<open>writeUInt32BE\<close> and the packet \<^verbatim>\<open>xferRaw\<close> builds (lines 126-131): magic, type, id and
  payload length, then the payload. \<^verbatim>\<open>xferRawZeroLength\<close> builds the header alone
  (lines 112-116).
\<close>

definition writeUInt32BE :: "nat \<Rightarrow> byte list" where
  "writeUInt32BE n =
     [of_nat (n div 2 ^ 24), of_nat (n div 2 ^ 16), of_nat (n div 2 ^ 8), of_nat n]"

definition xferRaw_packet :: "nat \<Rightarrow> nat \<Rightarrow> byte list \<Rightarrow> byte list" where
  "xferRaw_packet ty i buffer =
     [of_nat MAGIC, of_nat ty] @ writeUInt32BE i @ writeUInt32BE (length buffer) @ buffer"

definition xferRawZeroLength_packet :: "nat \<Rightarrow> nat \<Rightarrow> byte list" where
  "xferRawZeroLength_packet ty i =
     [of_nat MAGIC, of_nat ty] @ writeUInt32BE i @ writeUInt32BE 0"

text \<open>
  The session's side of the same functions (lines 104-143): the assertion on the socket,
  then the write. \<^verbatim>\<open>writeUInt8\<close> and \<^verbatim>\<open>writeUInt32BE\<close> refuse a value that does not fit.
\<close>

definition socketReady :: "session \<Rightarrow> bool" where
  "socketReady s = writable s"

definition xferRawZeroLength :: "nat \<Rightarrow> nat \<Rightarrow> session \<Rightarrow> outcome" where
  "xferRawZeroLength ty i s =
     (if \<not> socketReady s then Threw (AssertionError ''Socket not writable.'') s
      else if ty > 255 \<or> i > MAX_ID
        then Threw (AssertionError ''value is larger than maximum value for type'') s
      else Done (record_effect (SocketWrite ty i (Octets [])) s))"

definition xferRaw :: "nat \<Rightarrow> nat \<Rightarrow> body \<Rightarrow> session \<Rightarrow> outcome" where
  "xferRaw ty i buffer s =
     (if \<not> socketReady s then Threw (AssertionError ''Socket not writable.'') s
      else if ty > 255 \<or> i > MAX_ID
        then Threw (AssertionError ''value is larger than maximum value for type'') s
      else Done (record_effect (SocketWrite ty i buffer) s))"

definition xferObject :: "nat \<Rightarrow> json \<Rightarrow> session \<Rightarrow> outcome" where
  "xferObject i j s = xferRaw TYPE_JSON i (Stringified j) s"

definition xferBuffer :: "nat \<Rightarrow> byte list \<Rightarrow> session \<Rightarrow> outcome" where
  "xferBuffer i buffer s = xferRaw TYPE_BUFFER_RESPONSE i (Octets buffer) s"

text \<open>The constructor (lines 9-76): the instigator sends the handshake.\<close>

definition BlizzardSession :: "(jsval \<Rightarrow> fn option) \<Rightarrow> bool \<Rightarrow> bool \<Rightarrow> outcome" where
  "BlizzardSession ms inst w =
     (if inst then xferRawZeroLength TYPE_HANDSHAKE 0 (blank ms inst w)
      else Done (blank ms inst w))"

subsection \<open>Requests, replies and failures\<close>

text \<open>
  \<^verbatim>\<open>request\<close> (lines 145-168). The second argument is a value or, in the two-argument
  call, the callback.
\<close>

datatype arg = Value jsval | Function fn

definition request :: "jsval \<Rightarrow> arg \<Rightarrow> fn option \<Rightarrow> session \<Rightarrow> outcome" where
  "request method params cb s =
     (let cb' = (case params of Function f \<Rightarrow> Some f | Value p \<Rightarrow> cb);
          params' = (case params of Function f \<Rightarrow> JNull | Value p \<Rightarrow> p);
          rpc = JObj ((''method'', method) #
                      (if truthy params' then [(''params'', params')] else []))
      in case cb' of
           Some f \<Rightarrow>
             (let i = fst (nextSequence s); s' = snd (nextSequence s)
              in xferObject i (Plain rpc)
                   (s'\<lparr>requestCallbacks := (requestCallbacks s')(i \<mapsto> f)\<rparr>))
         | None \<Rightarrow> xferObject 0 (Plain rpc) s)"

text \<open>\<^verbatim>\<open>reply\<close> (lines 170-183).\<close>

definition reply :: "nat \<Rightarrow> jsval \<Rightarrow> session \<Rightarrow> outcome" where
  "reply i message s =
     (if i = 0 then Threw (Error ''id required for reply'') s
      else case message of
             JBuffer b \<Rightarrow>
               and_then (xferBuffer i b s) (xferRawZeroLength TYPE_BUFFER_RESPONSE i)
           | _ \<Rightarrow> xferObject i (Plain (JObj [(''result'', message)])) s)"

text \<open>
  \<^verbatim>\<open>onFailure\<close> (lines 185-202), the listener of \<^verbatim>\<open>fail\<close>. Emitting \<^verbatim>\<open>fail\<close> records the
  event and runs the listener at once, as the emitter does. Emitting \<^verbatim>\<open>error\<close> (line 190,
  "Crash the program.") throws out of the emitter when no listener receives the event.
\<close>

definition onFailure :: "nat \<Rightarrow> int \<Rightarrow> reason \<Rightarrow> session \<Rightarrow> outcome" where
  "onFailure i code error s =
     (if i = 0 then
        (if code = ERROR_INTERNAL then
           (if errorListener s then Done (record_effect (Emit (ErrorEvent error)) s)
            else Threw (Uncaught error) (record_effect (Emit (ErrorEvent error)) s))
         else Done s)
      else xferObject i (ErrorReply code error) s)"

definition emit_fail :: "nat \<Rightarrow> int \<Rightarrow> reason \<Rightarrow> session \<Rightarrow> outcome" where
  "emit_fail i code error s = onFailure i code error (record_effect (Emit (Fail i code error)) s)"

text \<open>\<^verbatim>\<open>callRequestCallback\<close> (lines 204-221).\<close>

definition callRequestCallback :: "nat \<Rightarrow> jsval \<Rightarrow> jsval \<Rightarrow> session \<Rightarrow> outcome" where
  "callRequestCallback i error result s =
     (if i = 0 then Threw (AssertionError ''id'') s
      else
        (let requestCallback = requestCallbacks s i;
             s' = s\<lparr>requestCallbacks := (requestCallbacks s)(i := None)\<rparr>
         in case requestCallback of
              Some f \<Rightarrow> Done (record_effect (RequestCallback i f error result) s')
            | None \<Rightarrow>
                (if \<not> truthy error
                 then emit_fail i ERROR_INTERNAL (Text ''Could not find callback for this ID.'') s'
                 else Done s')))"

subsection \<open>The dispatcher\<close>

text \<open>
  The closure \<^verbatim>\<open>onComplete\<close> of \<^verbatim>\<open>onMessage\<close> (lines 249-257), which a method handler
  calls when it is done.
\<close>

definition onComplete :: "nat \<Rightarrow> jsval \<Rightarrow> jsval \<Rightarrow> session \<Rightarrow> outcome" where
  "onComplete i error rep s =
     (if truthy error then emit_fail i ERROR_USER (Thrown error) s
      else if i \<noteq> 0 then reply i rep s
      else Done s)"

text \<open>\<^verbatim>\<open>onMessage\<close> (lines 244-281), the listener of \<^verbatim>\<open>message\<close>.\<close>

definition onMessage :: "nat \<Rightarrow> jsval \<Rightarrow> session \<Rightarrow> outcome" where
  "onMessage i message s =
     (if \<not> readable message then Threw (TypeError ''Cannot read property method'') s
      else if truthy (read_prop message ''method'') then
        (let params = (if truthy (read_prop message ''params'') then read_prop message ''params''
                       else JArr [])
         in case methods s (read_prop message ''method'') of
              Some handler \<Rightarrow> Done (record_effect (MethodCall handler params i) s)
            | None \<Rightarrow> emit_fail i ERROR_METHOD (MethodNotFound (read_prop message ''method'')) s)
      else if i \<noteq> 0 then
        (if truthy (read_prop message ''error'')
           then callRequestCallback i (read_prop message ''error'') JUndefined s
         else if truthy (read_prop message ''result'')
           then callRequestCallback i JNull (read_prop message ''result'') s
         else emit_fail i ERROR_INVALID
                (Text ''Messages with IDs must contain method, error, or result.'') s)
      else emit_fail i ERROR_INVALID (Text ''Messages without IDs must contain method.'') s)"

definition emit_message :: "nat \<Rightarrow> jsval \<Rightarrow> session \<Rightarrow> outcome" where
  "emit_message i message s = onMessage i message (record_effect (Emit (Message i message)) s)"

text \<open>
  \<^verbatim>\<open>onIncomingJSON\<close> (lines 223-241), the listener of \<^verbatim>\<open>incomingJSON\<close>. \<^verbatim>\<open>JSON.parse\<close> is
  the platform's: \<open>parse\<close> yields \<open>None\<close> where it throws.
\<close>

definition onIncomingJSON :: "(string \<Rightarrow> jsval option) \<Rightarrow> nat \<Rightarrow> string \<Rightarrow> session \<Rightarrow> outcome" where
  "onIncomingJSON parse i jsonString s =
     (case parse jsonString of
        None \<Rightarrow> emit_fail i ERROR_PARSE (UnableToParse jsonString) s
      | Some message \<Rightarrow>
          (if \<not> readable message then Threw (TypeError ''Cannot read property length'') s
           else
             and_then
               (if truthy (read_prop message ''length'')
                then emit_fail i ERROR_INVALID (Text ''Expected an object, got an array.'') s
                else Done s)
               (emit_message i message)))"

subsection \<open>Reassembly of binary replies\<close>

text \<open>
  A \<^verbatim>\<open>streams\<close> entry is the \<^verbatim>\<open>put\<close> object: the chunks it was given, in order; its
  \<^verbatim>\<open>buffer()\<close> is their concatenation. \<^verbatim>\<open>bufferPut\<close> (lines 299-307) and \<^verbatim>\<open>bufferComplete\<close>
  (lines 283-297).
\<close>

definition bufferPut :: "nat \<Rightarrow> byte list \<Rightarrow> session \<Rightarrow> session" where
  "bufferPut i buffer s =
     (let s' = (case streams s i of
                  None \<Rightarrow> s\<lparr>streams := (streams s)(i \<mapsto> [])\<rparr>
                | Some stream \<Rightarrow> s)
      in case streams s' i of
           Some stream \<Rightarrow> s'\<lparr>streams := (streams s')(i \<mapsto> stream @ [buffer])\<rparr>
         | None \<Rightarrow> s')"

definition bufferComplete :: "nat \<Rightarrow> session \<Rightarrow> outcome" where
  "bufferComplete i s =
     (case streams s i of
        None \<Rightarrow> emit_fail i ERROR_INVALID
                 (Text ''Got final packet for a stream that does not exist.'') s
      | Some stream \<Rightarrow>
          emit_message i (JObj [(''result'', JBuffer (concat stream))])
            (s\<lparr>streams := (streams s)(i := None)\<rparr>))"

subsection \<open>The binary parser\<close>

text \<open>
  One iteration of the parser's loop (lines 335-386) on the bytes received so far: the
  magic byte, the header, and the payload of \<^verbatim>\<open>length\<close> bytes when \<^verbatim>\<open>length\<close> is not 0.
  \<open>NeedMore\<close>: the iteration waits for bytes. A wrong magic byte does not stop the
  iteration: the bytes after it are read as the header all the same, and the taps run.
\<close>

record vars =
  vars_magic :: nat
  vars_type :: nat
  vars_id :: nat
  vars_length :: nat
  vars_data :: "byte list option"





text \<open>
  The taps of an iteration, run here once its bytes are there: \<^verbatim>\<open>parseMagic\<close> (lines
  338-346), which reports a wrong magic byte and has the parser started anew after this
  iteration, then \<^verbatim>\<open>updateSequence\<close>, \<^verbatim>\<open>parseHeader\<close> and \<^verbatim>\<open>parsePacket\<close> (lines 353-382).
  Each \<^verbatim>\<open>emit\<close> records the event and runs its listener. \<open>decode\<close> is the platform's
  \<^verbatim>\<open>toString("utf8")\<close> of a Buffer.
\<close>

definition emit_bufferComplete :: "nat \<Rightarrow> session \<Rightarrow> outcome" where
  "emit_bufferComplete i s = bufferComplete i (record_effect (Emit (BufferComplete i)) s)"

definition emit_buffer :: "nat \<Rightarrow> byte list \<Rightarrow> session \<Rightarrow> outcome" where
  "emit_buffer i d s = Done (bufferPut i d (record_effect (Emit (BufferData i d)) s))"

definition emit_incomingJSON ::
    "(string \<Rightarrow> jsval option) \<Rightarrow> nat \<Rightarrow> string \<Rightarrow> session \<Rightarrow> outcome" where
  "emit_incomingJSON parse i str s =
     onIncomingJSON parse i str (record_effect (Emit (IncomingJSON i str)) s)"

definition parseMagic :: "vars \<Rightarrow> session \<Rightarrow> outcome" where
  "parseMagic v s =
     (if vars_magic v \<noteq> MAGIC
      then emit_fail 0 ERROR_INVALID (Text ''Unexpected value for magic byte.'') s
      else Done s)"

definition parseHeader :: "vars \<Rightarrow> session \<Rightarrow> outcome" where
  "parseHeader v s =
     (if vars_length v = 0 then
        (if vars_type v = TYPE_BUFFER_RESPONSE then emit_bufferComplete (vars_id v) s
         else if vars_type v = TYPE_HANDSHAKE then Done (record_effect (Emit Ready) s)
         else emit_fail (vars_id v) ERROR_INVALID (Text ''Unexpected 0-length header.'') s)
      else Done s)"

definition parsePacket ::
    "(string \<Rightarrow> jsval option) \<Rightarrow> (byte list \<Rightarrow> string) \<Rightarrow> vars \<Rightarrow> session \<Rightarrow> outcome" where
  "parsePacket parse decode v s =
     (case vars_data v of
        None \<Rightarrow> Done s
      | Some d \<Rightarrow>
          if vars_type v = TYPE_JSON then emit_incomingJSON parse (vars_id v) (decode d) s
          else if vars_type v = TYPE_BUFFER_RESPONSE then emit_buffer (vars_id v) d s
          else emit_fail (vars_id v) ERROR_INVALID (Text ''Unknown packet type.'') s)"

definition on_frame ::
    "(string \<Rightarrow> jsval option) \<Rightarrow> (byte list \<Rightarrow> string) \<Rightarrow> vars \<Rightarrow> session \<Rightarrow> outcome" where
  "on_frame parse decode v s =
     and_then
       (and_then (parseMagic v s) (\<lambda>t. parseHeader v (updateSequence (vars_id v) t)))
       (parsePacket parse decode v)"

text \<open>
  The frames read from the peer, one after the other; an exception ends the run. Which
  bytes the parser started anew takes for its first frame is the stream library's matter:
  the run is over the frames as they were read.
\<close>

fun on_frames ::
    "(string \<Rightarrow> jsval option) \<Rightarrow> (byte list \<Rightarrow> string) \<Rightarrow> vars list \<Rightarrow> session \<Rightarrow> outcome" where
  "on_frames parse decode [] s = Done s"
| "on_frames parse decode (v # vs) s =
     and_then (on_frame parse decode v s) (on_frames parse decode vs)"

subsection \<open>Reading a trace\<close>

text \<open>
  The messages handed to \<^verbatim>\<open>onMessage\<close>, in order, and the calls of the request callback
  stored under a given id.
\<close>

fun dispatch_of :: "effect \<Rightarrow> (nat \<times> jsval) list" where
  "dispatch_of (Emit (Message i m)) = [(i, m)]"
| "dispatch_of x = []"

definition dispatched :: "effect list \<Rightarrow> (nat \<times> jsval) list" where
  "dispatched tr = concat (map dispatch_of tr)"

fun callback_at :: "nat \<Rightarrow> effect \<Rightarrow> bool" where
  "callback_at i (RequestCallback j f e r) = (j = i)"
| "callback_at i x = False"

definition callbacks_at :: "nat \<Rightarrow> effect list \<Rightarrow> effect list" where
  "callbacks_at i tr = filter (callback_at i) tr"

text \<open>
  From \<open>s\<close> to \<open>t\<close> the trace has only grown, and the calls of the callback stored under
  \<open>i\<close> have grown by one at most, and only by using up the table's entry.
\<close>

definition pending :: "nat \<Rightarrow> session \<Rightarrow> nat" where
  "pending i s = (if requestCallbacks s i = None then 0 else 1)"

definition uses_entry :: "nat \<Rightarrow> session \<Rightarrow> session \<Rightarrow> bool" where
  "uses_entry i s t \<longleftrightarrow>
     prefix (trace s) (trace t) \<and>
     length (callbacks_at i (trace t)) + pending i t
       \<le> length (callbacks_at i (trace s)) + pending i s"

section \<open>Properties of the sequence counter\<close>

lemma sequence_set_sequence:
  "sequence (set_sequence v s) = (if v > MAX_ID then 0 else v)"
  by (simp add: set_sequence_def)

lemma instigator_set_sequence: "instigator (set_sequence v s) = instigator s"
  by (simp add: set_sequence_def)

lemma nextSequence_fst:
  "fst (nextSequence s) =
     (let v = sequence s + (if instigator s then 2 else 1) in if v > MAX_ID then 0 else v)"
  by (simp add: nextSequence_def Let_def sequence_set_sequence)

lemma nextSequence_snd_sequence: "sequence (snd (nextSequence s)) = fst (nextSequence s)"
  by (simp add: nextSequence_def Let_def)

lemma nextSequence_snd_instigator: "instigator (snd (nextSequence s)) = instigator s"
  by (simp add: nextSequence_def Let_def instigator_set_sequence)

lemma MAX_ID_val: "MAX_ID = 4294967295"
  by (simp add: MAX_ID_def)

lemma next_ids_instigator_even:
  "instigator s \<Longrightarrow> even (sequence s) \<Longrightarrow> \<forall>i \<in> set (next_ids n s). even i"
proof (induction n arbitrary: s)
  case 0
  then show ?case by simp
next
  case (Suc n)
  have e: "even (fst (nextSequence s))"
    using Suc.prems by (simp add: nextSequence_fst Let_def)
  have "\<forall>i \<in> set (next_ids n (snd (nextSequence s))). even i"
    using Suc.prems e
    by (intro Suc.IH) (simp_all add: nextSequence_snd_instigator nextSequence_snd_sequence)
  with e show ?case by simp
qed

lemma next_ids_other:
  "\<not> instigator s \<Longrightarrow> sequence s \<le> MAX_ID \<Longrightarrow>
   next_ids n s = map (\<lambda>k. (sequence s + k) mod 2 ^ 32) [Suc 0..<Suc n]"
proof (induction n arbitrary: s)
  case 0
  then show ?case by simp
next
  case (Suc n)
  let ?s' = "snd (nextSequence s)"
  have f: "fst (nextSequence s) = (sequence s + Suc 0) mod 2 ^ 32"
  proof (cases "sequence s = 4294967295")
    case True
    then show ?thesis using Suc.prems by (simp add: nextSequence_fst Let_def MAX_ID_val)
  next
    case False
    then show ?thesis using Suc.prems by (simp add: nextSequence_fst Let_def MAX_ID_val)
  qed
  have b: "sequence ?s' \<le> MAX_ID"
    by (simp add: nextSequence_snd_sequence f MAX_ID_val)
  have ih: "next_ids n ?s' = map (\<lambda>k. (sequence ?s' + k) mod 2 ^ 32) [Suc 0..<Suc n]"
    using Suc.prems b by (intro Suc.IH) (simp_all add: nextSequence_snd_instigator)
  have "map (\<lambda>k. (sequence ?s' + k) mod 2 ^ 32) [Suc 0..<Suc n]
        = map (\<lambda>k. (sequence s + Suc k) mod 2 ^ 32) [Suc 0..<Suc n]"
    by (simp add: nextSequence_snd_sequence f mod_add_left_eq)
  also have "\<dots> = map (\<lambda>k. (sequence s + k) mod 2 ^ 32) (map Suc [Suc 0..<Suc n])"
    by (simp add: comp_def)
  also have "map Suc [Suc 0..<Suc n] = [Suc (Suc 0)..<Suc (Suc n)]"
    by (simp only: map_Suc_upt)
  finally have t: "next_ids n ?s'
      = map (\<lambda>k. (sequence s + k) mod 2 ^ 32) [Suc (Suc 0)..<Suc (Suc n)]"
    using ih by simp
  have "[Suc 0..<Suc (Suc n)] = Suc 0 # [Suc (Suc 0)..<Suc (Suc n)]"
    by (simp add: upt_conv_Cons)
  then show ?case using f t by (simp del: upt_Suc)
qed

text \<open>
  Claim C3, as the code has it. From sequence 0, advanced by \<^verbatim>\<open>nextSequence\<close> alone: every
  id an instigator gets is even; a session that is not the instigator gets 1, 2, 3, ...
  in turn (the \<open>k\<close>-th id is \<open>k mod 2 ^ 32\<close>), so its ids alternate between odd and even.
\<close>

theorem next_ids_parity:
  "sequence s = 0 \<Longrightarrow>
     (instigator s \<longrightarrow> (\<forall>i \<in> set (next_ids n s). even i)) \<and>
     (\<not> instigator s \<longrightarrow> next_ids n s = map (\<lambda>k. k mod 2 ^ 32) [1..<Suc n])"
  using next_ids_instigator_even [of s n] next_ids_other [of s n] by simp

theorem next_ids_parity_witness:
  "sequence (blank (\<lambda>m. None) True True) = 0 \<and>
   sequence (blank (\<lambda>m. None) False True) = 0 \<and>
   next_ids (Suc (Suc (Suc 0))) (blank (\<lambda>m. None) True True) = [2, 4, 6] \<and>
   even (2::nat) \<and> even (4::nat) \<and> even (6::nat) \<and>
   next_ids (Suc (Suc (Suc 0))) (blank (\<lambda>m. None) False True) = [1, 2, 3]"
  using next_ids_parity [of "blank (\<lambda>m. None) True True" "Suc (Suc (Suc 0))"]
        next_ids_parity [of "blank (\<lambda>m. None) False True" "Suc (Suc (Suc 0))"]
  by (simp add: blank_def nextSequence_def set_sequence_def MAX_ID_val Let_def)

text \<open>
  Claim C3 as the specification words it ("every id is odd when it is not the
  instigator") fails at the second call: a fresh session that is not the instigator gets
  1, then 2.
\<close>

theorem next_ids_odd_counterexample:
  "next_ids (Suc (Suc 0)) (blank (\<lambda>m. None) False True) = [1, 2] \<and>
   \<not> odd (next_ids (Suc (Suc 0)) (blank (\<lambda>m. None) False True) ! 1)"
  by (simp add: blank_def nextSequence_def set_sequence_def MAX_ID_val Let_def)

text \<open>
  Claim C8. At sequence \<open>2 ^ 32 - 1\<close>, \<^verbatim>\<open>nextSequence\<close> of a session that is not the
  instigator returns 0 and the next call returns 1; \<^verbatim>\<open>nextSequence\<close> of an instigator
  returns 0.
\<close>

theorem nextSequence_rollover:
  "sequence s = MAX_ID \<Longrightarrow>
     (\<not> instigator s \<longrightarrow>
        fst (nextSequence s) = 0 \<and> fst (nextSequence (snd (nextSequence s))) = 1) \<and>
     (instigator s \<longrightarrow> fst (nextSequence s) = 0)"
  by (simp add: nextSequence_fst nextSequence_snd_sequence nextSequence_snd_instigator
      Let_def MAX_ID_val)

theorem nextSequence_rollover_witness:
  "sequence (blank (\<lambda>m. None) False True\<lparr>sequence := MAX_ID\<rparr>) = MAX_ID \<and>
   \<not> instigator (blank (\<lambda>m. None) False True\<lparr>sequence := MAX_ID\<rparr>) \<and>
   fst (nextSequence (blank (\<lambda>m. None) False True\<lparr>sequence := MAX_ID\<rparr>)) = 0 \<and>
   fst (nextSequence (snd (nextSequence (blank (\<lambda>m. None) False True\<lparr>sequence := MAX_ID\<rparr>)))) = 1 \<and>
   sequence (blank (\<lambda>m. None) True True\<lparr>sequence := MAX_ID\<rparr>) = MAX_ID \<and>
   instigator (blank (\<lambda>m. None) True True\<lparr>sequence := MAX_ID\<rparr>) \<and>
   fst (nextSequence (blank (\<lambda>m. None) True True\<lparr>sequence := MAX_ID\<rparr>)) = 0"
  using nextSequence_rollover [of "blank (\<lambda>m. None) False True\<lparr>sequence := MAX_ID\<rparr>"]
        nextSequence_rollover [of "blank (\<lambda>m. None) True True\<lparr>sequence := MAX_ID\<rparr>"]
  by (simp add: blank_def)

lemma setter_range: "0 \<le> v \<Longrightarrow> 0 \<le> setter v \<and> setter v \<le> int MAX_ID"
  by (simp add: setter_def)

lemma set_sequence_setter: "int (sequence (set_sequence v s)) = setter (int v)"
  by (simp add: set_sequence_def setter_def)

lemma nextSequence_write:
  "int (sequence (snd (nextSequence s))) = write_sequence (instigator s) Next (int (sequence s))"
  by (auto simp add: nextSequence_def Let_def set_sequence_def setter_def)

lemma updateSequence_write:
  "int (sequence (updateSequence i s)) = write_sequence inst (Update i) (int (sequence s))"
  by (auto simp add: updateSequence_def set_sequence_def setter_def)

lemma write_sequence_range:
  assumes "unsigned_write w" and "0 \<le> c" and "c \<le> int MAX_ID"
  shows "0 \<le> write_sequence inst w c \<and> write_sequence inst w c \<le> int MAX_ID"
proof (cases w)
  case Next
  then show ?thesis using assms setter_range [of "c + 2"] setter_range [of "c + 1"] by simp
next
  case (Update i)
  then show ?thesis using assms setter_range [of "int i + 1"] by simp
next
  case (Assign v)
  then show ?thesis using assms setter_range [of v] by simp
qed

lemma writes_range:
  "list_all unsigned_write ws \<Longrightarrow> 0 \<le> c \<Longrightarrow> c \<le> int MAX_ID \<Longrightarrow>
     0 \<le> foldl (\<lambda>c w. write_sequence inst w c) c ws \<and>
     foldl (\<lambda>c w. write_sequence inst w c) c ws \<le> int MAX_ID"
proof (induction ws arbitrary: c)
  case Nil
  then show ?case by simp
next
  case (Cons w ws)
  from Cons.prems have "unsigned_write w" and rest: "list_all unsigned_write ws" by simp_all
  from write_sequence_range [OF this(1) Cons.prems(2) Cons.prems(3), of inst]
  have "0 \<le> write_sequence inst w c" and "write_sequence inst w c \<le> int MAX_ID" by simp_all
  from Cons.IH [OF rest this] show ?case by simp
qed

text \<open>
  Claim C10 as the specification words it (the stored value lies in the range after any
  direct assignment) fails below 0: the setter stores \<open>- 5\<close> as it is, and the next id is
  \<open>- 4\<close>.
\<close>

theorem sequence_negative_counterexample:
  "write_sequence False (Assign (- 5)) 0 = - 5 \<and>
   write_sequence False (Assign (- 5)) 0 < 0 \<and>
   write_sequence False Next (write_sequence False (Assign (- 5)) 0) = - 4"
  by (simp add: setter_def)

text \<open>
  Claim C10, as the code has it. The counter is 0 after construction, and after any run
  of writes (by \<^verbatim>\<open>nextSequence\<close>, by \<^verbatim>\<open>updateSequence\<close>, or by a direct assignment of an integer
  that is not negative) its value lies between 0 and \<open>2 ^ 32 - 1\<close>; a direct assignment
  of a value above \<open>2 ^ 32 - 1\<close> stores 0. The session's \<^verbatim>\<open>nextSequence\<close> and \<^verbatim>\<open>updateSequence\<close> are
  these writes.
\<close>

theorem sequence_stays_in_range:
  "list_all unsigned_write ws \<Longrightarrow>
     sequence (blank ms inst wr) = 0 \<and>
     0 \<le> foldl (\<lambda>c w. write_sequence inst w c) 0 ws \<and>
     foldl (\<lambda>c w. write_sequence inst w c) 0 ws \<le> int MAX_ID \<and>
     (v > int MAX_ID \<longrightarrow> write_sequence inst (Assign v) c = 0) \<and>
     int (sequence (snd (nextSequence s)))
       = write_sequence (instigator s) Next (int (sequence s)) \<and>
     int (sequence (updateSequence i s))
       = write_sequence (instigator s) (Update i) (int (sequence s))"
proof -
  assume ws: "list_all unsigned_write ws"
  have "0 \<le> foldl (\<lambda>c w. write_sequence inst w c) 0 ws \<and>
        foldl (\<lambda>c w. write_sequence inst w c) 0 ws \<le> int MAX_ID"
    by (rule writes_range [OF ws]) simp_all
  moreover have "sequence (blank ms inst wr) = 0" by (simp add: blank_def)
  moreover have "v > int MAX_ID \<longrightarrow> write_sequence inst (Assign v) c = 0"
    by (simp add: setter_def)
  ultimately show ?thesis
    using nextSequence_write [of s] updateSequence_write [of i s "instigator s"] by simp
qed

theorem sequence_stays_in_range_witness:
  "list_all unsigned_write [Assign 4294967295, Next, Update 4294967295, Next, Assign 4294967296] \<and>
   foldl (\<lambda>c w. write_sequence False w c) 0
     [Assign 4294967295, Next, Update 4294967295, Next, Assign 4294967296] = 0 \<and>
   foldl (\<lambda>c w. write_sequence False w c) 0 [Assign 4294967295, Next, Update 4294967295, Next] = 1 \<and>
   (4294967296::int) > int MAX_ID \<and>
   write_sequence False (Assign 4294967296) 7 = 0"
  using sequence_stays_in_range [of
      "[Assign 4294967295, Next, Update 4294967295, Next, Assign 4294967296]"
      "\<lambda>m. None" False True 4294967296 7 "blank (\<lambda>m. None) False True" 4294967295]
  by (simp add: setter_def MAX_ID_val)

section \<open>Properties of the framing\<close>





lemma xferRawZeroLength_packet_eq: "xferRawZeroLength_packet ty i = xferRaw_packet ty i []"
  by (simp add: xferRawZeroLength_packet_def xferRaw_packet_def)

lemma handshake_packet:
  "xferRawZeroLength_packet TYPE_HANDSHAKE 0 = [0x59, 0, 0, 0, 0, 0, 0, 0, 0, 0]"
  by (simp add: xferRawZeroLength_packet_def writeUInt32BE_def MAGIC_def TYPE_HANDSHAKE_def)




section \<open>Properties of the failure funnel and the request table\<close>

text \<open>
  Claim C6 as the specification words it (for an id other than 0 the error object is
  transmitted at that id) fails when the socket is not writable, as after \<^verbatim>\<open>end\<close>: the
  assertion of \<^verbatim>\<open>xferRaw\<close> throws and nothing is written.
\<close>

theorem fail_event_unwritable_counterexample:
  "emit_fail 5 ERROR_METHOD (MethodNotFound (JStr ''nope'')) (blank (\<lambda>m. None) False False)
     = Threw (AssertionError ''Socket not writable.'')
         ((blank (\<lambda>m. None) False False)
            \<lparr>trace := [Emit (Fail 5 ERROR_METHOD (MethodNotFound (JStr ''nope'')))]\<rparr>)"
  by (simp add: emit_fail_def onFailure_def xferObject_def xferRaw_def socketReady_def
      record_effect_def blank_def)

text \<open>
  Claim C6, as the code has it. A \<^verbatim>\<open>fail\<close> event with id 0 and code \<^verbatim>\<open>ERROR_INTERNAL\<close> is
  passed on as an \<^verbatim>\<open>error\<close> event of the session, which throws out of the emitter when no
  listener receives it; with id 0 and any other code nothing follows it, and nothing is
  written; with another id (of 32 bits) and a writable socket the object
  \<^verbatim>\<open>{error: {code, message}}\<close> is written as a JSON packet at that id, and nothing else; with
  another id and a socket that is not writable the assertion throws and nothing is
  written.
\<close>

theorem fail_event_outcomes:
  "(i = 0 \<and> code = ERROR_INTERNAL \<longrightarrow>
      emit_fail i code error s =
        (if errorListener s then Done else Threw (Uncaught error))
          (s\<lparr>trace := trace s @ [Emit (Fail i code error), Emit (ErrorEvent error)]\<rparr>)) \<and>
   (i = 0 \<and> code \<noteq> ERROR_INTERNAL \<longrightarrow>
      emit_fail i code error s = Done (s\<lparr>trace := trace s @ [Emit (Fail i code error)]\<rparr>)) \<and>
   (i \<noteq> 0 \<and> i \<le> MAX_ID \<and> writable s \<longrightarrow>
      emit_fail i code error s =
        Done (s\<lparr>trace := trace s @
                 [Emit (Fail i code error),
                  SocketWrite TYPE_JSON i (Stringified (ErrorReply code error))]\<rparr>)) \<and>
   (i \<noteq> 0 \<and> \<not> writable s \<longrightarrow>
      emit_fail i code error s =
        Threw (AssertionError ''Socket not writable.'')
          (s\<lparr>trace := trace s @ [Emit (Fail i code error)]\<rparr>))"
  by (simp add: emit_fail_def onFailure_def xferObject_def xferRaw_def socketReady_def
      record_effect_def TYPE_JSON_def)

theorem fail_event_outcomes_witness:
  "ERROR_PARSE \<noteq> ERROR_INTERNAL \<and> (7::nat) \<noteq> 0 \<and> 7 \<le> MAX_ID \<and>
   writable (blank (\<lambda>m. None) False True) \<and> \<not> writable (blank (\<lambda>m. None) False False) \<and>
   emit_fail 0 ERROR_INTERNAL (Text ''boom'') (blank (\<lambda>m. None) False True)
     = Threw (Uncaught (Text ''boom''))
         ((blank (\<lambda>m. None) False True)
            \<lparr>trace := [Emit (Fail 0 ERROR_INTERNAL (Text ''boom'')),
                       Emit (ErrorEvent (Text ''boom''))]\<rparr>) \<and>
   emit_fail 0 ERROR_INTERNAL (Text ''boom'') ((blank (\<lambda>m. None) False True)\<lparr>errorListener := True\<rparr>)
     = Done ((blank (\<lambda>m. None) False True)
            \<lparr>errorListener := True,
              trace := [Emit (Fail 0 ERROR_INTERNAL (Text ''boom'')),
                        Emit (ErrorEvent (Text ''boom''))]\<rparr>) \<and>
   trace (state_of (emit_fail 0 ERROR_PARSE (UnableToParse ''{'') (blank (\<lambda>m. None) False True)))
     = [Emit (Fail 0 ERROR_PARSE (UnableToParse ''{''))] \<and>
   trace (state_of (emit_fail 7 ERROR_METHOD (MethodNotFound (JStr ''nope''))
       (blank (\<lambda>m. None) False True)))
     = [Emit (Fail 7 ERROR_METHOD (MethodNotFound (JStr ''nope''))),
        SocketWrite TYPE_JSON 7
          (Stringified (ErrorReply ERROR_METHOD (MethodNotFound (JStr ''nope''))))] \<and>
   trace (state_of (emit_fail 7 ERROR_METHOD (MethodNotFound (JStr ''nope''))
       (blank (\<lambda>m. None) False False)))
     = [Emit (Fail 7 ERROR_METHOD (MethodNotFound (JStr ''nope'')))]"
  using fail_event_outcomes [of 0 ERROR_INTERNAL "Text ''boom''" "blank (\<lambda>m. None) False True"]
        fail_event_outcomes [of 0 ERROR_INTERNAL "Text ''boom''"
          "(blank (\<lambda>m. None) False True)\<lparr>errorListener := True\<rparr>"]
        fail_event_outcomes [of 0 ERROR_PARSE "UnableToParse ''{''" "blank (\<lambda>m. None) False True"]
        fail_event_outcomes [of 7 ERROR_METHOD "MethodNotFound (JStr ''nope'')"
          "blank (\<lambda>m. None) False True"]
        fail_event_outcomes [of 7 ERROR_METHOD "MethodNotFound (JStr ''nope'')"
          "blank (\<lambda>m. None) False False"]
  by (simp add: blank_def emit_fail_def onFailure_def xferObject_def xferRaw_def socketReady_def
      record_effect_def MAX_ID_val TYPE_JSON_def ERROR_PARSE_def ERROR_INTERNAL_def)

text \<open>
  Claim C5. \<^verbatim>\<open>callRequestCallback\<close> for an id that has no entry in the request table: with
  an error argument (a truthy one, as \<^verbatim>\<open>onMessage\<close> passes it) the session is left as it
  was, no event and no packet; without one (\<^verbatim>\<open>null\<close>, \<^verbatim>\<open>undefined\<close>, any falsy value) a
  \<^verbatim>\<open>fail\<close> event with code \<^verbatim>\<open>ERROR_INTERNAL\<close> is emitted for that id.
\<close>

theorem callRequestCallback_unknown_id:
  "i \<noteq> 0 \<Longrightarrow> requestCallbacks s i = None \<Longrightarrow>
     (truthy error \<longrightarrow> callRequestCallback i error result s = Done s) \<and>
     (\<not> truthy error \<longrightarrow>
        callRequestCallback i error result s =
          emit_fail i ERROR_INTERNAL (Text ''Could not find callback for this ID.'') s \<and>
        Emit (Fail i ERROR_INTERNAL (Text ''Could not find callback for this ID.''))
          \<in> set (trace (state_of (callRequestCallback i error result s))))"
proof -
  assume i: "i \<noteq> 0" and n: "requestCallbacks s i = None"
  have same: "s\<lparr>requestCallbacks := (requestCallbacks s)(i := None)\<rparr> = s"
    using n by (simp add: fun_upd_idem)
  have c: "callRequestCallback i error result s =
        (if \<not> truthy error
         then emit_fail i ERROR_INTERNAL (Text ''Could not find callback for this ID.'') s
         else Done s)"
    using i n by (simp add: callRequestCallback_def Let_def same)
  have "Emit (Fail i ERROR_INTERNAL (Text ''Could not find callback for this ID.''))
          \<in> set (trace (state_of
                (emit_fail i ERROR_INTERNAL (Text ''Could not find callback for this ID.'') s)))"
    using i by (simp add: emit_fail_def onFailure_def xferObject_def xferRaw_def record_effect_def)
  with c show ?thesis by simp
qed


theorem callRequestCallback_unknown_id_witness:
  "(4::nat) \<noteq> 0 \<and> requestCallbacks (blank (\<lambda>m. None) True True) 4 = None \<and>
   truthy (JObj [(''code'', JNum (- 32603))]) \<and> \<not> truthy JNull \<and>
   callRequestCallback 4 (JObj [(''code'', JNum (- 32603))]) JUndefined
       (blank (\<lambda>m. None) True True) = Done (blank (\<lambda>m. None) True True) \<and>
   trace (state_of (callRequestCallback 4 JNull (JNum 3) (blank (\<lambda>m. None) True True)))
     = [Emit (Fail 4 ERROR_INTERNAL (Text ''Could not find callback for this ID.'')),
        SocketWrite TYPE_JSON 4 (Stringified (ErrorReply ERROR_INTERNAL
          (Text ''Could not find callback for this ID.'')))]"
  using callRequestCallback_unknown_id [of 4 "blank (\<lambda>m. None) True True"
          "JObj [(''code'', JNum (- 32603))]" JUndefined]
        callRequestCallback_unknown_id [of 4 "blank (\<lambda>m. None) True True" JNull "JNum 3"]
  by (simp add: blank_def callRequestCallback_def emit_fail_def onFailure_def xferObject_def
      xferRaw_def socketReady_def record_effect_def MAX_ID_val TYPE_JSON_def Let_def)

lemma uses_entry_refl: "uses_entry i s s"
  by (simp add: uses_entry_def)

lemma uses_entry_trans: "uses_entry i s t \<Longrightarrow> uses_entry i t u \<Longrightarrow> uses_entry i s u"
  unfolding uses_entry_def by (meson prefix_order.trans le_trans)

lemma uses_entry_record:
  "\<not> callback_at i x \<Longrightarrow> uses_entry i s (record_effect x s)"
  by (simp add: uses_entry_def record_effect_def callbacks_at_def pending_def)

lemma uses_entry_and_then:
  assumes "uses_entry i s (state_of a)" and "\<And>t. uses_entry i t (state_of (f t))"
  shows "uses_entry i s (state_of (and_then a f))"
proof (cases a)
  case (Done t)
  then show ?thesis using assms(1) assms(2) [of t] by (auto intro: uses_entry_trans)
next
  case (Threw e t)
  then show ?thesis using assms(1) by simp
qed

lemma uses_entry_xferRaw: "uses_entry i s (state_of (xferRaw ty j b s))"
  by (simp add: xferRaw_def uses_entry_record uses_entry_refl)

lemma uses_entry_xferRawZeroLength: "uses_entry i s (state_of (xferRawZeroLength ty j s))"
  by (simp add: xferRawZeroLength_def uses_entry_record uses_entry_refl)

lemma uses_entry_onFailure: "uses_entry i s (state_of (onFailure j code error s))"
  by (simp add: onFailure_def xferObject_def uses_entry_xferRaw uses_entry_record uses_entry_refl)

lemma uses_entry_emit_fail: "uses_entry i s (state_of (emit_fail j code error s))"
  unfolding emit_fail_def
  by (rule uses_entry_trans [OF uses_entry_record uses_entry_onFailure]) simp

lemma uses_entry_delete:
  "uses_entry i s (s\<lparr>requestCallbacks := (requestCallbacks s)(j := None)\<rparr>)"
  by (simp add: uses_entry_def pending_def)

lemma uses_entry_callRequestCallback:
  "uses_entry i s (state_of (callRequestCallback j error result s))"
proof (cases "j = 0")
  case True
  then show ?thesis by (simp add: callRequestCallback_def uses_entry_refl)
next
  case False
  let ?s' = "s\<lparr>requestCallbacks := (requestCallbacks s)(j := None)\<rparr>"
  show ?thesis
  proof (cases "requestCallbacks s j")
    case None
    have "uses_entry i s (state_of (emit_fail j ERROR_INTERNAL
            (Text ''Could not find callback for this ID.'') ?s'))"
      by (rule uses_entry_trans [OF uses_entry_delete uses_entry_emit_fail])
    then show ?thesis
      using False None by (simp add: callRequestCallback_def Let_def uses_entry_delete)
  next
    case (Some f)
    then show ?thesis
      using False
      by (simp add: callRequestCallback_def Let_def uses_entry_def record_effect_def
          callbacks_at_def pending_def)
  qed
qed

lemma uses_entry_onMessage: "uses_entry i s (state_of (onMessage j message s))"
  by (simp add: onMessage_def Let_def uses_entry_refl uses_entry_emit_fail
      uses_entry_callRequestCallback uses_entry_record split: option.split)

lemma uses_entry_emit_message: "uses_entry i s (state_of (emit_message j message s))"
  unfolding emit_message_def
  by (rule uses_entry_trans [OF uses_entry_record uses_entry_onMessage]) simp

lemma uses_entry_onIncomingJSON: "uses_entry i s (state_of (onIncomingJSON parse j str s))"
proof (cases "parse str")
  case None
  then show ?thesis by (simp add: onIncomingJSON_def uses_entry_emit_fail)
next
  case (Some message)
  show ?thesis
  proof (cases "readable message")
    case True
    have "uses_entry i s (state_of (and_then
            (if truthy (read_prop message ''length'')
             then emit_fail j ERROR_INVALID (Text ''Expected an object, got an array.'') s
             else Done s)
            (emit_message j message)))"
      by (rule uses_entry_and_then) (simp_all add: uses_entry_emit_fail uses_entry_refl
          uses_entry_emit_message)
    then show ?thesis using Some True by (simp add: onIncomingJSON_def)
  next
    case False
    then show ?thesis using Some by (simp add: onIncomingJSON_def uses_entry_refl)
  qed
qed

lemma uses_entry_streams: "uses_entry i s (s\<lparr>streams := st\<rparr>)"
  by (simp add: uses_entry_def pending_def)

lemma uses_entry_bufferPut: "uses_entry i s (bufferPut j b s)"
  by (simp add: bufferPut_def uses_entry_def pending_def split: option.split)

lemma uses_entry_bufferComplete: "uses_entry i s (state_of (bufferComplete j s))"
proof (cases "streams s j")
  case None
  then show ?thesis by (simp add: bufferComplete_def uses_entry_emit_fail)
next
  case (Some stream)
  then show ?thesis
    by (simp add: bufferComplete_def)
       (rule uses_entry_trans [OF uses_entry_streams uses_entry_emit_message])
qed

lemma uses_entry_updateSequence: "uses_entry i s (updateSequence j s)"
  by (simp add: updateSequence_def set_sequence_def uses_entry_def pending_def)

lemma uses_entry_parseHeader: "uses_entry i s (state_of (parseHeader v s))"
proof -
  have "uses_entry i s (state_of (emit_bufferComplete (vars_id v) s))"
    unfolding emit_bufferComplete_def
    by (rule uses_entry_trans [OF uses_entry_record uses_entry_bufferComplete]) simp
  then show ?thesis
    by (simp add: parseHeader_def uses_entry_refl uses_entry_record uses_entry_emit_fail)
qed

lemma uses_entry_parsePacket: "uses_entry i s (state_of (parsePacket parse decode v s))"
proof -
  have a: "uses_entry i s (state_of (emit_incomingJSON parse (vars_id v) str s))" for str
    unfolding emit_incomingJSON_def
    by (rule uses_entry_trans [OF uses_entry_record uses_entry_onIncomingJSON]) simp
  have b: "uses_entry i s (state_of (emit_buffer (vars_id v) d s))" for d
    unfolding emit_buffer_def state_of.simps
    by (rule uses_entry_trans [OF uses_entry_record uses_entry_bufferPut]) simp
  show ?thesis
    by (simp add: parsePacket_def a b uses_entry_refl uses_entry_emit_fail split: option.split)
qed

lemma uses_entry_parseMagic: "uses_entry i s (state_of (parseMagic v s))"
  by (simp add: parseMagic_def uses_entry_emit_fail uses_entry_refl)

lemma uses_entry_on_frame: "uses_entry i s (state_of (on_frame parse decode v s))"
proof -
  have "uses_entry i s (state_of
          (and_then (parseMagic v s) (\<lambda>t. parseHeader v (updateSequence (vars_id v) t))))"
    by (rule uses_entry_and_then)
       (simp_all add: uses_entry_parseMagic
          uses_entry_trans [OF uses_entry_updateSequence uses_entry_parseHeader])
  then show ?thesis
    unfolding on_frame_def
    by (rule uses_entry_and_then) (simp add: uses_entry_parsePacket)
qed

lemma uses_entry_on_frames: "uses_entry i s (state_of (on_frames parse decode vs s))"
proof (induction vs arbitrary: s)
  case Nil
  show ?case by (simp add: uses_entry_refl)
next
  case (Cons v vs)
  show ?case
    unfolding on_frames.simps
    by (rule uses_entry_and_then) (simp_all add: uses_entry_on_frame Cons.IH)
qed

lemma callbacks_at_prefix:
  assumes "prefix xs ys" and "length (callbacks_at i ys) \<le> length (callbacks_at i xs)"
  shows "callbacks_at i ys = callbacks_at i xs"
proof -
  from assms(1) obtain zs where ys: "ys = xs @ zs" by (auto simp add: prefix_def)
  with assms(2) have "callbacks_at i zs = []" by (simp add: callbacks_at_def)
  with ys show ?thesis by (simp add: callbacks_at_def)
qed

text \<open>
  Whatever frames the peer sends, the callback stored under an id is called at most once
  more, and not at all when the table has no entry for the id; \<^verbatim>\<open>callRequestCallback\<close>
  removes the entry of its id and calls the callback it found there once.
\<close>

lemma frames_call_at_most_once:
  "prefix (trace s) (trace (state_of (on_frames parse decode vs s))) \<and>
   length (callbacks_at i (trace (state_of (on_frames parse decode vs s))))
     \<le> length (callbacks_at i (trace s)) + pending i s \<and>
   (requestCallbacks s i = None \<longrightarrow>
      callbacks_at i (trace (state_of (on_frames parse decode vs s))) = callbacks_at i (trace s)) \<and>
   (i \<noteq> 0 \<longrightarrow> requestCallbacks (state_of (callRequestCallback i error result s)) i = None) \<and>
   (i \<noteq> 0 \<longrightarrow> (\<forall>f. requestCallbacks s i = Some f \<longrightarrow>
      callRequestCallback i error result s =
        Done (s\<lparr>requestCallbacks := (requestCallbacks s)(i := None),
                trace := trace s @ [RequestCallback i f error result]\<rparr>)))"
proof -
  let ?t = "state_of (on_frames parse decode vs s)"
  have u: "uses_entry i s ?t" by (rule uses_entry_on_frames)
  then have p: "prefix (trace s) (trace ?t)" by (simp add: uses_entry_def)
  from u have l: "length (callbacks_at i (trace ?t)) \<le> length (callbacks_at i (trace s)) + pending i s"
    by (simp add: uses_entry_def)
  have n: "callbacks_at i (trace ?t) = callbacks_at i (trace s)" if "requestCallbacks s i = None"
    using callbacks_at_prefix [OF p] l that by (simp add: pending_def)
  have d: "requestCallbacks (state_of (callRequestCallback i error result s)) i = None"
    if "i \<noteq> 0"
    using that by (simp add: callRequestCallback_def Let_def record_effect_def emit_fail_def onFailure_def
        xferObject_def xferRaw_def split: option.split)
  have c: "callRequestCallback i error result s =
        Done (s\<lparr>requestCallbacks := (requestCallbacks s)(i := None),
                trace := trace s @ [RequestCallback i f error result]\<rparr>)"
    if "i \<noteq> 0" "requestCallbacks s i = Some f" for f
    using that by (simp add: callRequestCallback_def Let_def record_effect_def)
  from p l n d c show ?thesis by blast
qed

text \<open>
  Claim C4 says that the callback of an id is called at most once, the table entry being
  removed when a matching reply or error arrives. At most once holds (the lemma above).
  The entry is removed by an error reply and by a reply whose result is truthy: of two
  such replies at id 2 the first calls the callback stored there and the second finds no
  entry. A matching reply whose result is 0 is not taken for a reply (the test of
  \<^verbatim>\<open>message.result\<close> for truth, as in claim C2): the entry stays and the callback is not
  called.
\<close>

theorem falsy_reply_keeps_entry:
  "requestCallbacks (state_of (on_frames (\<lambda>t. Some (JObj [(''result'', JNum 0)])) (\<lambda>d. [])
       [\<lparr>vars_magic = 89, vars_type = 1, vars_id = 2, vars_length = 1, vars_data = Some [0]\<rparr>]
       (blank (\<lambda>m. None) True True\<lparr>requestCallbacks := [2 \<mapsto> 7]\<rparr>))) 2 = Some 7 \<and>
   callbacks_at 2 (trace (state_of (on_frames (\<lambda>t. Some (JObj [(''result'', JNum 0)])) (\<lambda>d. [])
       [\<lparr>vars_magic = 89, vars_type = 1, vars_id = 2, vars_length = 1, vars_data = Some [0]\<rparr>]
       (blank (\<lambda>m. None) True True\<lparr>requestCallbacks := [2 \<mapsto> 7]\<rparr>)))) = [] \<and>
   requestCallbacks (state_of (on_frames (\<lambda>t. Some (JObj [(''result'', JNum 3)])) (\<lambda>d. [])
       [\<lparr>vars_magic = 89, vars_type = 1, vars_id = 2, vars_length = 1, vars_data = Some [0]\<rparr>]
       (blank (\<lambda>m. None) True True\<lparr>requestCallbacks := [2 \<mapsto> 7]\<rparr>))) 2 = None \<and>
   callbacks_at 2 (trace (state_of (on_frames (\<lambda>t. Some (JObj [(''result'', JNum 3)])) (\<lambda>d. [])
       [\<lparr>vars_magic = 89, vars_type = 1, vars_id = 2, vars_length = 1, vars_data = Some [0]\<rparr>,
        \<lparr>vars_magic = 89, vars_type = 1, vars_id = 2, vars_length = 1, vars_data = Some [0]\<rparr>]
       (blank (\<lambda>m. None) True True\<lparr>requestCallbacks := [2 \<mapsto> 7]\<rparr>))))
     = [RequestCallback 2 7 JNull (JNum 3)] \<and>
   requestCallbacks (state_of (on_frames
       (\<lambda>t. Some (JObj [(''error'', JObj [(''code'', JNum (- 32000)), (''message'', JStr ''no'')])]))
       (\<lambda>d. [])
       [\<lparr>vars_magic = 89, vars_type = 1, vars_id = 2, vars_length = 1, vars_data = Some [0]\<rparr>]
       (blank (\<lambda>m. None) True True\<lparr>requestCallbacks := [2 \<mapsto> 7]\<rparr>))) 2 = None \<and>
   callbacks_at 2 (trace (state_of (on_frames
       (\<lambda>t. Some (JObj [(''error'', JObj [(''code'', JNum (- 32000)), (''message'', JStr ''no'')])]))
       (\<lambda>d. [])
       [\<lparr>vars_magic = 89, vars_type = 1, vars_id = 2, vars_length = 1, vars_data = Some [0]\<rparr>,
        \<lparr>vars_magic = 89, vars_type = 1, vars_id = 2, vars_length = 1, vars_data = Some [0]\<rparr>]
       (blank (\<lambda>m. None) True True\<lparr>requestCallbacks := [2 \<mapsto> 7]\<rparr>))))
     = [RequestCallback 2 7
          (JObj [(''code'', JNum (- 32000)), (''message'', JStr ''no'')]) JUndefined]"
  by (simp add: blank_def on_frame_def parseMagic_def parseHeader_def parsePacket_def
      emit_incomingJSON_def onIncomingJSON_def emit_message_def onMessage_def
      callRequestCallback_def emit_fail_def onFailure_def xferObject_def xferRaw_def
      socketReady_def record_effect_def updateSequence_def set_sequence_def callbacks_at_def
      MAX_ID_val MAGIC_def TYPE_JSON_def Let_def)

section \<open>Properties of the reassembly and of the dispatcher\<close>

lemma bufferPut_eq:
  "bufferPut i b s =
     s\<lparr>streams := (streams s)(i \<mapsto> (case streams s i of None \<Rightarrow> [] | Some st \<Rightarrow> st) @ [b])\<rparr>"
  by (cases "streams s i") (simp_all add: bufferPut_def)

lemma bufferPut_foldl:
  "foldl (\<lambda>t c. bufferPut i c t) s (c # cs) =
     s\<lparr>streams := (streams s)(i \<mapsto> (case streams s i of None \<Rightarrow> [] | Some st \<Rightarrow> st) @ c # cs)\<rparr>"
proof (induction cs arbitrary: s c)
  case Nil
  show ?case by (simp add: bufferPut_eq fun_upd_def)
next
  case (Cons d cs)
  have "foldl (\<lambda>t c. bufferPut i c t) s (c # d # cs)
        = foldl (\<lambda>t c. bufferPut i c t) (bufferPut i c s) (d # cs)"
    by simp
  also have "\<dots> = s\<lparr>streams := (streams s)(i \<mapsto>
        (case streams s i of None \<Rightarrow> [] | Some st \<Rightarrow> st) @ c # d # cs)\<rparr>"
    unfolding Cons.IH by (simp add: bufferPut_eq)
  finally show ?case .
qed

lemma quiet_emit_fail:
  "dispatched (trace (state_of (emit_fail j code error s))) = dispatched (trace s) \<and>
   streams (state_of (emit_fail j code error s)) = streams s"
  by (simp add: emit_fail_def onFailure_def xferObject_def xferRaw_def record_effect_def
      dispatched_def)

lemma quiet_callRequestCallback:
  "dispatched (trace (state_of (callRequestCallback j error result s))) = dispatched (trace s) \<and>
   streams (state_of (callRequestCallback j error result s)) = streams s"
proof (cases "requestCallbacks s j")
  case None
  then show ?thesis
    by (simp add: callRequestCallback_def Let_def quiet_emit_fail)
next
  case (Some f)
  then show ?thesis
    by (simp add: callRequestCallback_def Let_def record_effect_def dispatched_def)
qed

lemma quiet_record:
  "dispatch_of x = [] \<Longrightarrow>
     dispatched (trace (record_effect x s)) = dispatched (trace s) \<and>
     streams (record_effect x s) = streams s"
  by (simp add: record_effect_def dispatched_def)

lemma quiet_onMessage:
  "dispatched (trace (state_of (onMessage j message s))) = dispatched (trace s) \<and>
   streams (state_of (onMessage j message s)) = streams s"
  by (simp add: onMessage_def Let_def quiet_emit_fail quiet_callRequestCallback
      quiet_record split: option.split)

lemma emit_fail_recorded:
  "Emit (Fail j code error) \<in> set (trace (state_of (emit_fail j code error s)))"
  by (simp add: emit_fail_def onFailure_def xferObject_def xferRaw_def record_effect_def)

text \<open>
  Claim C7. With no \<^verbatim>\<open>streams\<close> entry for the id at the start, the data events
  \<^verbatim>\<open>buffer(id, chunk)\<close> of a non-empty sequence of chunks followed by \<^verbatim>\<open>bufferComplete(id)\<close>
  dispatch exactly one message, \<^verbatim>\<open>{result: <the chunks concatenated>}\<close> at that id, and the
  entry is gone afterwards; \<^verbatim>\<open>bufferComplete(id)\<close> with no entry emits a \<^verbatim>\<open>fail\<close> event with
  code \<^verbatim>\<open>ERROR_INVALID\<close> at that id and dispatches nothing.
\<close>

theorem buffer_reassembly:
  "streams s i = None \<Longrightarrow>
     (chunks \<noteq> [] \<longrightarrow>
        dispatched (trace (state_of (bufferComplete i (foldl (\<lambda>t c. bufferPut i c t) s chunks))))
          = dispatched (trace s) @ [(i, JObj [(''result'', JBuffer (concat chunks))])] \<and>
        streams (state_of (bufferComplete i (foldl (\<lambda>t c. bufferPut i c t) s chunks))) i = None) \<and>
     bufferComplete i s =
       emit_fail i ERROR_INVALID (Text ''Got final packet for a stream that does not exist.'') s \<and>
     Emit (Fail i ERROR_INVALID (Text ''Got final packet for a stream that does not exist.''))
       \<in> set (trace (state_of (bufferComplete i s))) \<and>
     dispatched (trace (state_of (bufferComplete i s))) = dispatched (trace s)"
proof -
  assume none: "streams s i = None"
  have absent: "bufferComplete i s =
       emit_fail i ERROR_INVALID (Text ''Got final packet for a stream that does not exist.'') s"
    using none by (simp add: bufferComplete_def)
  have present: "dispatched (trace (state_of (bufferComplete i (foldl (\<lambda>t c. bufferPut i c t) s chunks))))
          = dispatched (trace s) @ [(i, JObj [(''result'', JBuffer (concat chunks))])] \<and>
        streams (state_of (bufferComplete i (foldl (\<lambda>t c. bufferPut i c t) s chunks))) i = None"
    if "chunks \<noteq> []"
  proof -
    from that obtain c cs where chunks: "chunks = c # cs" by (cases chunks) auto
    let ?s1 = "foldl (\<lambda>t c. bufferPut i c t) s chunks"
    have s1: "?s1 = s\<lparr>streams := (streams s)(i \<mapsto> chunks)\<rparr>"
      unfolding chunks bufferPut_foldl using none by simp
    have "bufferComplete i ?s1 =
        emit_message i (JObj [(''result'', JBuffer (concat chunks))])
          (s\<lparr>streams := (streams s)(i := None)\<rparr>)"
      by (simp add: s1 bufferComplete_def)
    moreover have "dispatched (trace (record_effect (Emit (Message i m)) t))
        = dispatched (trace t) @ [(i, m)]" for m t
      by (simp add: record_effect_def dispatched_def)
    moreover have "streams (record_effect x t) = streams t" for x t
      by (simp add: record_effect_def)
    ultimately show ?thesis
      by (simp add: emit_message_def quiet_onMessage)
  qed
  from absent present show ?thesis
    by (simp add: quiet_emit_fail emit_fail_recorded)
qed

theorem buffer_reassembly_witness:
  "streams (blank (\<lambda>m. None) True True\<lparr>requestCallbacks := [9 \<mapsto> 4]\<rparr>) 9 = None \<and>
   [[0xDE, 0xAD], [0xBE, 0xEF :: byte]] \<noteq> [] \<and>
   trace (state_of (bufferComplete 9 (foldl (\<lambda>t c. bufferPut 9 c t)
       (blank (\<lambda>m. None) True True\<lparr>requestCallbacks := [9 \<mapsto> 4]\<rparr>) [[0xDE, 0xAD], [0xBE, 0xEF]])))
     = [Emit (Message 9 (JObj [(''result'', JBuffer [0xDE, 0xAD, 0xBE, 0xEF])])),
        RequestCallback 9 4 JNull (JBuffer [0xDE, 0xAD, 0xBE, 0xEF])] \<and>
   dispatched (trace (state_of (bufferComplete 9
       (blank (\<lambda>m. None) True True\<lparr>requestCallbacks := [9 \<mapsto> 4]\<rparr>)))) = []"
  using buffer_reassembly [of "blank (\<lambda>m. None) True True\<lparr>requestCallbacks := [9 \<mapsto> 4]\<rparr>" 9
      "[[0xDE, 0xAD], [0xBE, 0xEF]]"]
  by (simp add: blank_def bufferPut_def bufferComplete_def emit_message_def onMessage_def
      callRequestCallback_def record_effect_def dispatched_def Let_def)

text \<open>
  Claim C1 says that a payload that parses to an array is answered with a failure and not
  handed to \<^verbatim>\<open>onMessage\<close>. The source emits the failure and goes on (there is no
  \<^verbatim>\<open>return\<close> after it, unlike after the parse failure just above): the array \<^verbatim>\<open>[1]\<close> at
  id 5 is dispatched and draws a second failure; the empty array, whose \<^verbatim>\<open>length\<close> is 0,
  is dispatched without the first one.
\<close>

theorem onIncomingJSON_array_dispatched:
  "trace (state_of (onIncomingJSON (\<lambda>t. Some (JArr [JNum 1])) 5 ''[1]'' (blank (\<lambda>m. None) False True)))
     = [Emit (Fail 5 ERROR_INVALID (Text ''Expected an object, got an array.'')),
        SocketWrite TYPE_JSON 5
          (Stringified (ErrorReply ERROR_INVALID (Text ''Expected an object, got an array.''))),
        Emit (Message 5 (JArr [JNum 1])),
        Emit (Fail 5 ERROR_INVALID
          (Text ''Messages with IDs must contain method, error, or result.'')),
        SocketWrite TYPE_JSON 5
          (Stringified (ErrorReply ERROR_INVALID
            (Text ''Messages with IDs must contain method, error, or result.'')))] \<and>
   dispatched (trace (state_of
       (onIncomingJSON (\<lambda>t. Some (JArr [JNum 1])) 5 ''[1]'' (blank (\<lambda>m. None) False True))))
     = [(5, JArr [JNum 1])] \<and>
   trace (state_of (onIncomingJSON (\<lambda>t. Some (JArr [])) 5 ''[]'' (blank (\<lambda>m. None) False True)))
     = [Emit (Message 5 (JArr [])),
        Emit (Fail 5 ERROR_INVALID
          (Text ''Messages with IDs must contain method, error, or result.'')),
        SocketWrite TYPE_JSON 5
          (Stringified (ErrorReply ERROR_INVALID
            (Text ''Messages with IDs must contain method, error, or result.'')))]"
  by (simp add: onIncomingJSON_def emit_message_def onMessage_def emit_fail_def onFailure_def
      xferObject_def xferRaw_def socketReady_def record_effect_def blank_def dispatched_def
      TYPE_JSON_def MAX_ID_def)

text \<open>
  Claim C2 says that a response with a \<^verbatim>\<open>result\<close> field completes the request whatever the
  value. The source tests \<^verbatim>\<open>message.result\<close> for truth: at id 2, with a callback waiting,
  the results 0, \<^verbatim>\<open>false\<close>, \<^verbatim>\<open>null\<close> and the empty string are answered with the failure
  "Messages with IDs must contain method, error, or result." and the callback stays in
  the table, while the result 3 is delivered to it.
\<close>

theorem onMessage_falsy_result_rejected:
  "trace (state_of (onMessage 2 (JObj [(''result'', JNum 0)])
       (blank (\<lambda>m. None) True True\<lparr>requestCallbacks := [2 \<mapsto> 7]\<rparr>)))
     = [Emit (Fail 2 ERROR_INVALID
          (Text ''Messages with IDs must contain method, error, or result.'')),
        SocketWrite TYPE_JSON 2
          (Stringified (ErrorReply ERROR_INVALID
            (Text ''Messages with IDs must contain method, error, or result.'')))] \<and>
   requestCallbacks (state_of (onMessage 2 (JObj [(''result'', JNum 0)])
       (blank (\<lambda>m. None) True True\<lparr>requestCallbacks := [2 \<mapsto> 7]\<rparr>))) 2 = Some 7 \<and>
   onMessage 2 (JObj [(''result'', JBool False)])
       (blank (\<lambda>m. None) True True\<lparr>requestCallbacks := [2 \<mapsto> 7]\<rparr>)
     = onMessage 2 (JObj [(''result'', JNum 0)])
         (blank (\<lambda>m. None) True True\<lparr>requestCallbacks := [2 \<mapsto> 7]\<rparr>) \<and>
   onMessage 2 (JObj [(''result'', JNull)])
       (blank (\<lambda>m. None) True True\<lparr>requestCallbacks := [2 \<mapsto> 7]\<rparr>)
     = onMessage 2 (JObj [(''result'', JNum 0)])
         (blank (\<lambda>m. None) True True\<lparr>requestCallbacks := [2 \<mapsto> 7]\<rparr>) \<and>
   onMessage 2 (JObj [(''result'', JStr [])])
       (blank (\<lambda>m. None) True True\<lparr>requestCallbacks := [2 \<mapsto> 7]\<rparr>)
     = onMessage 2 (JObj [(''result'', JNum 0)])
         (blank (\<lambda>m. None) True True\<lparr>requestCallbacks := [2 \<mapsto> 7]\<rparr>) \<and>
   trace (state_of (onMessage 2 (JObj [(''result'', JNum 3)])
       (blank (\<lambda>m. None) True True\<lparr>requestCallbacks := [2 \<mapsto> 7]\<rparr>)))
     = [RequestCallback 2 7 JNull (JNum 3)]"
  by (simp add: onMessage_def callRequestCallback_def emit_fail_def onFailure_def
      xferObject_def xferRaw_def socketReady_def record_effect_def blank_def
      TYPE_JSON_def MAX_ID_def Let_def)

end
